theory Spec2Isabelle
  imports Main "HOL-Library.AList"
begin

text \<open>
  A model of vue-modello's \<open>Model\<close> class: the constructor, the attribute
  resolver and the dispatch engine of src/unnamed/part_000 (the class as it
  is written), \<open>makeActionContext\<close> and the registry of dist/vueModello.js,
  and the older \<open>applyAction\<close>, \<open>dispatch\<close> and \<open>dispatchAll\<close> of that bundle.
\<close>

section \<open>JavaScript values, objects and errors\<close>

text \<open>
  The values the model code handles. A promise is described by its eventual
  settlement: the logical time at which it settles and its outcome, or
  \<open>Pending\<close> when it never settles. \<open>JRef\<close> is a reference to a mutable object
  kept in the store of the user's code (a sub-state object, for instance);
  its properties are not visible here and it is taken to have none named
  \<open>then\<close>. \<open>JMember k\<close> is the member \<open>k\<close> of \<open>Object.prototype\<close>, the value a
  read of \<open>obj[k]\<close> yields when the plain object \<open>obj\<close> has no own property
  \<open>k\<close>: the function \<open>Object\<close> for \<open>constructor\<close>, the object
  \<open>Object.prototype\<close> itself for \<open>__proto__\<close>, a built-in function for the
  other names. Numbers are the integers; \<open>NaN\<close> is left out.
\<close>

datatype jsval =
    Undefined
  | Null
  | JBool bool
  | JNum int
  | JStr string
  | JArr "jsval list"
  | JObj "(string \<times> jsval) list"
  | JRef nat
  | JMember string
  | JPromise promise
and promise =
    Settles nat outcome
  | Pending
and outcome =
    Fulfilled jsval
  | Rejected jsval

datatype error = TypeError | ReferenceError | Thrown jsval

text \<open>
  An object is a plain object (its prototype is \<open>Object.prototype\<close>), given
  by the list of its own enumerable properties in enumeration order: the
  keys that are array indices first, in ascending order, then the other
  keys in the order of their creation. \<open>delete obj[k]\<close> is \<open>AList.delete\<close>.
  No object has an own property named \<open>__proto__\<close>, and none is assigned under
  that name (the assignment would change the prototype).
\<close>

type_synonym 'a object = "(string \<times> 'a) list"

text \<open>
  The test \<open>Object.prototype.hasOwnProperty\<close> makes, and \<open>Object.keys\<close>.
\<close>

definition hasOwnProperty :: "'a object \<Rightarrow> string \<Rightarrow> bool" where
  "hasOwnProperty obj k = (map_of obj k \<noteq> None)"

definition Object_keys :: "'a object \<Rightarrow> string list" where
  "Object_keys obj = map fst obj"

text \<open>
  The members of \<open>Object.prototype\<close>, which every plain object inherits; none
  is enumerable. A read \<open>obj[k]\<close> or a test \<open>k in obj\<close> finds them when \<open>obj\<close>
  has no own property \<open>k\<close>.
\<close>

definition protoNames :: "string list" where
  "protoNames =
     [''constructor'', ''__defineGetter__'', ''__defineSetter__'', ''hasOwnProperty'',
      ''__lookupGetter__'', ''__lookupSetter__'', ''isPrototypeOf'',
      ''propertyIsEnumerable'', ''toString'', ''valueOf'', ''__proto__'',
      ''toLocaleString'']"

definition inherited :: "string \<Rightarrow> bool" where
  "inherited k = (k \<in> set protoNames)"

text \<open>
  The read \<open>obj[k]\<close>: the own property, the inherited member, or nothing
  (\<open>undefined\<close>). \<open>get_prop\<close> is the read of an object whose values are
  JavaScript values; it is also \<open>k in obj ? obj[k] : undefined\<close>.
\<close>

datatype 'a got = Own 'a | Member | Absent

definition readProp :: "'a object \<Rightarrow> string \<Rightarrow> 'a got" where
  "readProp obj k =
     (case map_of obj k of
        Some v \<Rightarrow> Own v
      | None \<Rightarrow> if inherited k then Member else Absent)"

definition get_prop :: "jsval object \<Rightarrow> string \<Rightarrow> jsval" where
  "get_prop obj k =
     (case map_of obj k of
        Some v \<Rightarrow> v
      | None \<Rightarrow> if inherited k then JMember k else Undefined)"

text \<open>
  A member used as a property key (\<open>obj[member]\<close>) is converted to a string:
  the source text of a built-in function, as V8 prints it.
\<close>

definition memberText :: "string \<Rightarrow> string" where
  "memberText k =
     (if k = ''__proto__'' then ''[object Object]''
      else ''function '' @ (if k = ''constructor'' then ''Object'' else k) @
           ''() { [native code] }'')"

text \<open>\<open>if (v)\<close>: the values that count as true.\<close>

fun truthy :: "jsval \<Rightarrow> bool" where
  "truthy Undefined = False"
| "truthy Null = False"
| "truthy (JBool b) = b"
| "truthy (JNum n) = (n \<noteq> 0)"
| "truthy (JStr s) = (s \<noteq> [])"
| "truthy v = True"

text \<open>
  Array indices: the canonical decimal strings of the numbers below
  4294967295 (two to the power 32, less one). \<open>indexOf k\<close> is the number
  when \<open>k\<close> is one.
\<close>

definition digitVal :: "char \<Rightarrow> nat option" where
  "digitVal c =
     map_of [(CHR ''0'', 0), (CHR ''1'', 1), (CHR ''2'', 2), (CHR ''3'', 3), (CHR ''4'', 4),
             (CHR ''5'', 5), (CHR ''6'', 6), (CHR ''7'', 7), (CHR ''8'', 8), (CHR ''9'', 9)] c"

fun decimal :: "string \<Rightarrow> nat \<Rightarrow> nat option" where
  "decimal [] n = Some n"
| "decimal (c # cs) n =
     (case digitVal c of
        None \<Rightarrow> None
      | Some d \<Rightarrow> decimal cs (10 * n + d))"

definition indexOf :: "string \<Rightarrow> nat option" where
  "indexOf k =
     (case k of
        [] \<Rightarrow> None
      | c # cs \<Rightarrow>
          if c = CHR ''0'' \<and> cs \<noteq> [] then None
          else (case decimal k 0 of
                  Some n \<Rightarrow> if n < 4294967295 then Some n else None
                | None \<Rightarrow> None))"


text \<open>
  The assignment \<open>obj[k] = v\<close>: an existing key keeps its place; a new key
  that is an array index goes before the first key that is a larger index
  or no index; any other new key goes last.
\<close>

fun insIndex :: "nat \<Rightarrow> string \<Rightarrow> 'a \<Rightarrow> 'a object \<Rightarrow> 'a object" where
  "insIndex n k v [] = [(k, v)]"
| "insIndex n k v (p # ps) =
     (case indexOf (fst p) of
        Some i \<Rightarrow> if i < n then p # insIndex n k v ps else (k, v) # p # ps
      | None \<Rightarrow> (k, v) # p # ps)"

definition assign :: "string \<Rightarrow> 'a \<Rightarrow> 'a object \<Rightarrow> 'a object" where
  "assign k v obj =
     (case indexOf k of
        Some n \<Rightarrow> if map_of obj k = None then insIndex n k v obj else AList.update k v obj
      | None \<Rightarrow> AList.update k v obj)"



text \<open>
  \<open>_extends({}, a, b)\<close> and the object spread \<open>{...a, ...b}\<close>: every own key of
  the source is read from the source and assigned to the target
  (dist/vueModello.js lines 90-102).
\<close>

definition Object_assign :: "'a object \<Rightarrow> 'a object \<Rightarrow> 'a object" where
  "Object_assign target source =
     fold (\<lambda>key t. case map_of source key of
                      Some v \<Rightarrow> assign key v t
                    | None \<Rightarrow> t)
          (Object_keys source) target"

text \<open>
  Code that can throw is a function from a state to a result and the new
  state; \<open>Inl\<close> is the exception.
\<close>

definition returnJS :: "'a \<Rightarrow> 's \<Rightarrow> (error + 'a) \<times> 's" where
  "returnJS a s = (Inr a, s)"

definition throwJS :: "error \<Rightarrow> 's \<Rightarrow> (error + 'a) \<times> 's" where
  "throwJS e s = (Inl e, s)"

definition bindJS ::
  "('s \<Rightarrow> (error + 'a) \<times> 's) \<Rightarrow> ('a \<Rightarrow> 's \<Rightarrow> (error + 'b) \<times> 's) \<Rightarrow> 's \<Rightarrow> (error + 'b) \<times> 's" where
  "bindJS m f s = (case m s of (Inl e, s') \<Rightarrow> (Inl e, s') | (Inr a, s') \<Rightarrow> f a s')"

section \<open>The schema and the model object\<close>

text \<open>
  The \<open>type\<close> of a property descriptor: the constructors \<open>String\<close>, \<open>Number\<close>,
  \<open>Boolean\<close>, an array such as \<open>[String]\<close>, or anything else. \<open>defaultValue\<close> is
  \<open>None\<close> when the descriptor has no such key and \<open>Some Undefined\<close> when the
  key is there with the value \<open>undefined\<close>.
\<close>

datatype typeMarker = TString | TNumber | TBoolean | TArray | TOther

record propDesc =
  ptype :: typeMarker
  label :: "string option"
  defaultValue :: "jsval option"

record binding =
  bindModelName :: string
  propMap :: "string object"

text \<open>
  User functions act on the store \<open>'h\<close> of the user's code. The context an
  action receives is the object built by \<open>makeActionContext\<close>; its \<open>service\<close>
  is a handle the model never looks into (the bound \<open>dispatch\<close> in
  src/unnamed/part_000, the schema's \<open>service\<close> in dist/vueModello.js).
\<close>

datatype service = BoundDispatch | Service jsval

record 'h actionContext =
  ctx_state :: jsval
  ctx_service :: service
  ctx_dispatch :: "string \<Rightarrow> jsval list \<Rightarrow> 'h \<Rightarrow> (error + jsval) \<times> 'h"

type_synonym 'h jsfun = "jsval list \<Rightarrow> 'h \<Rightarrow> (error + jsval) \<times> 'h"
type_synonym 'h action = "'h actionContext \<Rightarrow> jsval list \<Rightarrow> 'h \<Rightarrow> (error + jsval) \<times> 'h"
type_synonym 'h factory = "'h \<Rightarrow> (error + jsval) \<times> 'h"
type_synonym 'h handler =
  "string option \<Rightarrow> string \<Rightarrow> 'h actionContext \<Rightarrow> jsval list \<Rightarrow> 'h \<Rightarrow> (error + jsval) \<times> 'h"

text \<open>
  A value of the \<open>actions\<close> or \<open>mutations\<close> table of a schema: a function (an
  entry that belongs to no namespace yet), the table of a namespace, or
  \<open>undefined\<close> (a mixin that lacks the field).
\<close>

datatype 'f slot = Fn 'f | Tbl "'f object" | Missing

record 'h mixin =
  mx_state :: "'h factory option"
  mx_actions :: "'h action object option"
  mx_mutations :: "'h jsfun object option"

record 'h modelDesc =
  d_modelName :: string
  d_properties :: "propDesc object"
  d_rules :: "jsval object option"
  d_binding :: "binding option"
  d_mixins :: "'h mixin object option"
  d_state :: "'h factory option"
  d_actions :: "'h action slot object option"
  d_mutations :: "'h jsfun slot object option"

text \<open>
  The constructed model: what the closures of the constructor hold.
  \<open>actions\<close>, \<open>mutations\<close> and \<open>state\<close> are the fields of \<open>modelDesc\<close> as the
  constructor leaves them. The labels (\<open>labels\<close>, \<open>getPropLabel\<close>,
  \<open>getLabels\<close>) and the bulk readers \<open>getRules\<close> and \<open>defaults\<close> are left out.
\<close>

record 'h model =
  modelName :: string
  properties :: "propDesc object"
  rules :: "jsval object option"
  binding :: "binding option"
  defaultState :: "jsval object"
  actions :: "'h action slot object"
  mutations :: "'h jsfun slot object"
  actionStateMap :: "string object"
  state :: "'h \<Rightarrow> (error + jsval object) \<times> 'h"
  beforeDispatchHanlers :: "'h handler list"

section \<open>Model construction (src/unnamed/part_000 lines 4-105)\<close>

text \<open>
  \<open>regDefaultDesc\<close>: \<open>defaults\<close> is \<open>desc[modelName]\<close> when that is truthy, a
  new empty table stored there otherwise. When \<open>desc[modelName]\<close> is a
  table, \<open>defaults[name] = desc[name]\<close> changes that table inside \<open>desc\<close>
  (\<open>attached\<close>); when it is a function (an entry of \<open>desc\<close>, or the inherited
  member when \<open>modelName\<close> is the name of one and \<open>desc\<close> has no such entry),
  the assignment sets a property of that function object and leaves \<open>desc\<close>
  alone (what it sets on a built-in object is not followed).
  \<open>regDefaultDesc\<close> is the table the loop leaves when it runs to its end.
\<close>

definition moveFn :: "string \<Rightarrow> bool \<Rightarrow> string \<Rightarrow> 'f slot object \<Rightarrow> 'f slot object" where
  "moveFn mName attached name desc =
     (case map_of desc name of
        Some (Fn f) \<Rightarrow>
          AList.delete name
            (if attached then
               (case map_of desc mName of
                  Some (Tbl defaults) \<Rightarrow>
                    assign mName (Tbl (assign name f defaults)) desc
                | _ \<Rightarrow> desc)
             else desc)
      | _ \<Rightarrow> desc)"

definition regDefaultDesc :: "string \<Rightarrow> 'f slot object \<Rightarrow> 'f slot object" where
  "regDefaultDesc mName desc0 =
     (case map_of desc0 mName of
        Some (Fn f) \<Rightarrow> fold (moveFn mName False) (Object_keys desc0) desc0
      | Some (Tbl t) \<Rightarrow> fold (moveFn mName True) (Object_keys desc0) desc0
      | Some Missing \<Rightarrow>
          fold (moveFn mName True)
            (Object_keys (assign mName (Tbl []) desc0))
            (assign mName (Tbl []) desc0)
      | None \<Rightarrow>
          if inherited mName then fold (moveFn mName False) (Object_keys desc0) desc0
          else
            fold (moveFn mName True)
              (Object_keys (assign mName (Tbl []) desc0))
              (assign mName (Tbl []) desc0))"

text \<open>
  The loop does not always run to its end. The code is strict, and the
  properties \<open>name\<close> and \<open>length\<close> of a function object are read-only
  (\<open>arguments\<close> and \<open>caller\<close> too, in V8; \<open>prototype\<close> for the function
  \<open>Object\<close>): when \<open>defaults\<close> is a function, moving a function entry of one
  of these names throws a TypeError.
\<close>

definition isFn :: "'f slot object \<Rightarrow> string \<Rightarrow> bool" where
  "isFn desc name = (case map_of desc name of Some (Fn f) \<Rightarrow> True | _ \<Rightarrow> False)"

definition readOnlyOfFunction :: "string list" where
  "readOnlyOfFunction = [''name'', ''length'', ''arguments'', ''caller'']"

definition regDefaultDescThrows :: "string \<Rightarrow> 'f slot object \<Rightarrow> bool" where
  "regDefaultDescThrows mName desc0 =
     (case map_of desc0 mName of
        Some (Fn f) \<Rightarrow>
          list_ex (\<lambda>name. isFn desc0 name \<and> name \<in> set readOnlyOfFunction)
            (Object_keys desc0)
      | Some sl \<Rightarrow> False
      | None \<Rightarrow>
          inherited mName \<and> mName \<noteq> ''__proto__'' \<and>
          list_ex (\<lambda>name. isFn desc0 name \<and>
                     (name \<in> set readOnlyOfFunction \<or>
                      (mName = ''constructor'' \<and> name = ''prototype'')))
            (Object_keys desc0))"

text \<open>The wrapper of lines 22-29: the schema's own state under \<open>modelName\<close>.\<close>

definition wrapState :: "string \<Rightarrow> 'h factory \<Rightarrow> 'h \<Rightarrow> (error + jsval object) \<times> 'h" where
  "wrapState mName state0 = bindJS state0 (\<lambda>v. returnJS [(mName, v)])"

text \<open>Lines 46-54: every mixin is stored under its namespace.\<close>

fun optSlot :: "'f object option \<Rightarrow> 'f slot" where
  "optSlot (Some t) = Tbl t"
| "optSlot None = Missing"

definition mergeMixin ::
  "'h mixin object \<Rightarrow> string \<Rightarrow>
   'h factory option object \<times> 'h action slot object \<times> 'h jsfun slot object \<Rightarrow>
   'h factory option object \<times> 'h action slot object \<times> 'h jsfun slot object" where
  "mergeMixin mixins regState acc =
     (case acc of (mixinState, acts, muts) \<Rightarrow>
        (case map_of mixins regState of
           None \<Rightarrow> (mixinState, acts, muts)
         | Some module \<Rightarrow>
             (assign regState (mx_state module) mixinState,
              assign regState (optSlot (mx_actions module)) acts,
              assign regState (optSlot (mx_mutations module)) muts)))"

definition mergeMixins ::
  "'h mixin object option \<Rightarrow> 'h action slot object \<Rightarrow> 'h jsfun slot object \<Rightarrow>
   'h factory option object \<times> 'h action slot object \<times> 'h jsfun slot object" where
  "mergeMixins mixins acts muts =
     (case mixins of
        None \<Rightarrow> ([], acts, muts)
      | Some ms \<Rightarrow> fold (mergeMixin ms) (Object_keys ms) ([], acts, muts))"

text \<open>
  Lines 56-61: the reverse index. \<open>Object.keys\<close> of \<open>undefined\<close> throws, of a
  function it is empty.
\<close>

fun slotKeys :: "'f slot \<Rightarrow> error + string list" where
  "slotKeys (Tbl t) = Inr (Object_keys t)"
| "slotKeys (Fn f) = Inr []"
| "slotKeys Missing = Inl TypeError"

fun buildActionStateMap ::
  "'f slot object \<Rightarrow> string list \<Rightarrow> string object \<Rightarrow> error + string object" where
  "buildActionStateMap acts [] asm = Inr asm"
| "buildActionStateMap acts (st # rest) asm =
     (case map_of acts st of
        None \<Rightarrow> Inl TypeError
      | Some sl \<Rightarrow>
          (case slotKeys sl of
             Inl e \<Rightarrow> Inl e
           | Inr names \<Rightarrow>
               buildActionStateMap acts rest
                 (fold (\<lambda>name a. assign name st a) names asm)))"

text \<open>Lines 63-70: the composed state factory.\<close>

fun mixinLoop ::
  "'h factory option object \<Rightarrow> string list \<Rightarrow> jsval object \<Rightarrow> 'h \<Rightarrow> (error + jsval object) \<times> 'h" where
  "mixinLoop mixinState [] result h = (Inr result, h)"
| "mixinLoop mixinState (regState # rest) result h =
     (case map_of mixinState regState of
        Some (Some f) \<Rightarrow>
          (case f h of
             (Inl e, h') \<Rightarrow> (Inl e, h')
           | (Inr v, h') \<Rightarrow> mixinLoop mixinState rest (assign regState v result) h')
      | _ \<Rightarrow> (Inl TypeError, h))"

definition composeState ::
  "('h \<Rightarrow> (error + jsval object) \<times> 'h) \<Rightarrow> 'h factory option object \<Rightarrow>
   'h \<Rightarrow> (error + jsval object) \<times> 'h" where
  "composeState oldState mixinState =
     bindJS oldState (\<lambda>result. mixinLoop mixinState (Object_keys mixinState) result)"

text \<open>
  Lines 76-105: the defaults computed from the property descriptors.
  \<open>bindingMap.hasOwnProperty(prop)\<close> is a method call on the binding map: when
  the map has an entry named \<open>hasOwnProperty\<close>, the callee is that entry, a
  string, and the call throws a TypeError (\<open>propertyLoopThrows\<close>); it is
  reached for a property that has no own \<open>defaultValue\<close>.
\<close>

definition collectDefault ::
  "string object \<Rightarrow> propDesc object \<Rightarrow> string \<Rightarrow> jsval object \<Rightarrow> jsval object" where
  "collectDefault bindingMap props prop dState =
     (case map_of props prop of
        None \<Rightarrow> dState
      | Some pd \<Rightarrow>
          (case defaultValue pd of
             Some v \<Rightarrow> assign prop v dState
           | None \<Rightarrow>
               if \<not> hasOwnProperty bindingMap prop then
                 (if ptype pd = TArray then assign prop (JArr []) dState
                  else
                    (let val =
                       (case ptype pd of
                          TString \<Rightarrow> JStr []
                        | TNumber \<Rightarrow> JNum 0
                        | TBoolean \<Rightarrow> JBool True
                        | _ \<Rightarrow> Undefined)
                     in if val \<noteq> Undefined then assign prop val dState else dState))
               else dState))"

definition bindingMapOf :: "binding option \<Rightarrow> string object" where
  "bindingMapOf b = (case b of Some bnd \<Rightarrow> propMap bnd | None \<Rightarrow> [])"

definition propertyLoopThrows :: "string object \<Rightarrow> propDesc object \<Rightarrow> bool" where
  "propertyLoopThrows bindingMap props =
     (hasOwnProperty bindingMap ''hasOwnProperty'' \<and>
      list_ex (\<lambda>pd. defaultValue pd = None) (map snd props))"

definition Model :: "'h modelDesc \<Rightarrow> error + 'h model" where
  "Model modelDesc =
     (let mName = d_modelName modelDesc;
          oldState = (case d_state modelDesc of
                        Some s \<Rightarrow> wrapState mName s
                      | None \<Rightarrow> returnJS []);
          acts = (case d_actions modelDesc of
                    Some a \<Rightarrow> regDefaultDesc mName a
                  | None \<Rightarrow> []);
          muts = (case d_mutations modelDesc of
                    Some a \<Rightarrow> regDefaultDesc mName a
                  | None \<Rightarrow> [])
      in if (case d_actions modelDesc of
               Some a \<Rightarrow> regDefaultDescThrows mName a
             | None \<Rightarrow> False) \<or>
            (case d_mutations modelDesc of
               Some a \<Rightarrow> regDefaultDescThrows mName a
             | None \<Rightarrow> False) \<or>
            propertyLoopThrows (bindingMapOf (d_binding modelDesc)) (d_properties modelDesc)
         then Inl TypeError
         else
         case mergeMixins (d_mixins modelDesc) acts muts of
           (mixinState, acts', muts') \<Rightarrow>
             (case buildActionStateMap acts' (Object_keys acts') [] of
                Inl e \<Rightarrow> Inl e
              | Inr asm \<Rightarrow>
                  Inr \<lparr> modelName = mName,
                        properties = d_properties modelDesc,
                        rules = d_rules modelDesc,
                        binding = d_binding modelDesc,
                        defaultState =
                          fold (collectDefault (bindingMapOf (d_binding modelDesc))
                                  (d_properties modelDesc))
                               (Object_keys (d_properties modelDesc)) [],
                        actions = acts',
                        mutations = muts',
                        actionStateMap = asm,
                        state = composeState oldState mixinState,
                        beforeDispatchHanlers = [] \<rparr>))"

section \<open>The registry (dist/vueModello.js lines 420-439)\<close>

type_synonym 'h modelStore = "'h model object"

definition ModelMan_reg :: "'h model \<Rightarrow> 'h modelStore \<Rightarrow> 'h modelStore" where
  "ModelMan_reg m store = assign (modelName m) m store"

definition ModelMan_get :: "'h modelStore \<Rightarrow> string \<Rightarrow> 'h model got" where
  "ModelMan_get store mName = readProp store mName"

definition ModelMan_unReg :: "string \<Rightarrow> 'h modelStore \<Rightarrow> 'h modelStore" where
  "ModelMan_unReg mName store = AList.delete mName store"

section \<open>The attribute resolver (src/unnamed/part_000 lines 72-177)\<close>

text \<open>\<open>binding ? ModelMan.get(binding.modelName) : null\<close>.\<close>

definition getBindingModel :: "'h modelStore \<Rightarrow> 'h model \<Rightarrow> 'h model got" where
  "getBindingModel store m =
     (case binding m of
        Some b \<Rightarrow> ModelMan_get store (bindModelName b)
      | None \<Rightarrow> Absent)"

text \<open>
  \<open>let mapProp = bindingMap[prop]; if (mapProp) { let bindingModel =
  getBindingModel(); if (bindingModel) ...\<close>. \<open>mappedKey\<close> is the mapped
  name when it counts as true, as the property key the bound model will
  read: a non-empty string, or the text of the member when \<open>bindingMap[prop]\<close>
  is an inherited member. \<open>remoteOf\<close> is the registered model that is asked,
  with that key. \<open>remoteThrows\<close>: the registry yields an inherited member for
  the model's name; that value counts as true and has no method
  \<open>getPropRule\<close> or \<open>getPropDefaults\<close>, so the call throws a TypeError.
\<close>

definition mappedKey :: "'h model \<Rightarrow> string \<Rightarrow> string option" where
  "mappedKey m prop =
     (case readProp (bindingMapOf (binding m)) prop of
        Own mapProp \<Rightarrow> if mapProp = [] then None else Some mapProp
      | Member \<Rightarrow> Some (memberText prop)
      | Absent \<Rightarrow> None)"

definition remoteOf :: "'h modelStore \<Rightarrow> 'h model \<Rightarrow> string \<Rightarrow> ('h model \<times> string) option" where
  "remoteOf store m prop =
     (case mappedKey m prop of
        None \<Rightarrow> None
      | Some mapProp \<Rightarrow>
          (case getBindingModel store m of
             Own bindingModel \<Rightarrow> Some (bindingModel, mapProp)
           | _ \<Rightarrow> None))"

definition remoteThrows :: "'h modelStore \<Rightarrow> 'h model \<Rightarrow> string \<Rightarrow> bool" where
  "remoteThrows store m prop =
     (mappedKey m prop \<noteq> None \<and> getBindingModel store m = Member)"




text \<open>
  \<open>getPropDefaults\<close>: \<open>properties[prop]\<close> of a property that is not declared
  is \<open>undefined\<close>, and \<open>hasOwnProperty\<close> on it throws, unless \<open>prop\<close> is the name
  of an inherited member: that member has no own property \<open>defaultValue\<close>.
\<close>

definition explicitDefault :: "'h model \<Rightarrow> string \<Rightarrow> jsval option" where
  "explicitDefault m prop =
     (case readProp (properties m) prop of
        Own pd \<Rightarrow> defaultValue pd
      | _ \<Rightarrow> None)"

partial_function (option) getPropDefaults ::
  "'h modelStore \<Rightarrow> 'h model \<Rightarrow> string \<Rightarrow> (error + jsval) option" where
  "getPropDefaults store m prop =
     (if readProp (properties m) prop = Absent then Some (Inl TypeError)
      else
        (case explicitDefault m prop of
           Some v \<Rightarrow> Some (Inr v)
         | None \<Rightarrow>
             if remoteThrows store m prop then Some (Inl TypeError)
             else
               (case remoteOf store m prop of
                  None \<Rightarrow> Some (Inr (get_prop (defaultState m) prop))
                | Some (bindingModel, mapProp) \<Rightarrow>
                    Option.bind (getPropDefaults store bindingModel mapProp)
                      (\<lambda>r. case r of
                              Inl e \<Rightarrow> Some (Inl e)
                            | Inr defaults \<Rightarrow>
                                if defaults \<noteq> Undefined then Some (Inr defaults)
                                else Some (Inr (get_prop (defaultState m) prop))))))"

section \<open>Promises\<close>

text \<open>
  \<open>result && result.then\<close>: a promise, or an object with a property \<open>then\<close>
  that counts as true. Strings, arrays and functions have no \<open>then\<close>.
\<close>

fun isThenable :: "jsval \<Rightarrow> bool" where
  "isThenable (JPromise p) = True"
| "isThenable (JObj kvs) = truthy (get_prop kvs ''then'')"
| "isThenable v = False"

text \<open>\<open>p.then(() => v)\<close>: fulfils with \<open>v\<close> when \<open>p\<close> fulfils, rejects as \<open>p\<close> does.\<close>

fun promise_then :: "promise \<Rightarrow> jsval \<Rightarrow> promise" where
  "promise_then (Settles t (Fulfilled u)) v = Settles t (Fulfilled v)"
| "promise_then (Settles t (Rejected e)) v = Settles t (Rejected e)"
| "promise_then Pending v = Pending"





section \<open>The dispatch engine (src/unnamed/part_000 lines 190-282)\<close>

text \<open>
  The argument of \<open>getState\<close>: \<open>undefined\<close>, a namespace, or an array of
  namespaces (an entry is \<open>undefined\<close> for an action that has no namespace).
\<close>

datatype statesArg = SUndefined | SString string | SArray "string option list"

text \<open>
  The calls the model makes are recorded in a trace beside the user's store:
  the call of the collector of \<open>dispatchAll\<close>, every \<open>getState\<close>, and every
  action with its namespace, its name, the \<open>state\<close> of its context and its
  business arguments. User code sees the store only: what an action does
  through the mutations or the service of its context is part of its own
  effect on the store and leaves no entry of its own.
\<close>

datatype event =
    EvCollect
  | EvGetState statesArg
  | EvAction string string jsval "jsval list"

record 'h world =
  heap :: 'h
  trace :: "event list"

definition liftHeap :: "('h \<Rightarrow> (error + 'a) \<times> 'h) \<Rightarrow> 'h world \<Rightarrow> (error + 'a) \<times> 'h world" where
  "liftHeap f w = (case f (heap w) of (r, h') \<Rightarrow> (r, w\<lparr>heap := h'\<rparr>))"

definition logEvent :: "event \<Rightarrow> 'h world \<Rightarrow> (error + unit) \<times> 'h world" where
  "logEvent ev w = (Inr (), w\<lparr>trace := trace w @ [ev]\<rparr>)"

text \<open>A property key made from a value that may be \<open>undefined\<close>.\<close>

definition keyOf :: "string option \<Rightarrow> string" where
  "keyOf k = (case k of Some s \<Rightarrow> s | None \<Rightarrow> ''undefined'')"

text \<open>
  \<open>makeActionContext\<close> (dist/vueModello.js lines 7-21). The guard
  \<open>mutations.hasOwnProperty(mutationName)\<close> is a method call on the table:
  when the table has a mutation named \<open>hasOwnProperty\<close>, that mutation is the
  callee, it receives the name, and what it returns decides. After a guard
  that holds, \<open>mutations[mutationName]\<close> of a name the table has not is
  \<open>undefined\<close>, or an inherited member when the name is that of one; the
  call of \<open>apply\<close> on \<open>undefined\<close> throws a TypeError, and the call of a
  member with \<open>this\<close> null is not followed here: it is given as the TypeError
  most members throw then.
\<close>

definition makeActionContext ::
  "'h jsfun object option \<Rightarrow> jsval \<Rightarrow> service \<Rightarrow> 'h actionContext" where
  "makeActionContext muts st sv =
     \<lparr> ctx_state = st,
       ctx_service = sv,
       ctx_dispatch = (\<lambda>mutationName args.
         case muts of
           None \<Rightarrow> throwJS TypeError
         | Some tbl \<Rightarrow>
             (case map_of tbl ''hasOwnProperty'' of
                None \<Rightarrow>
                  if hasOwnProperty tbl mutationName then
                    (case map_of tbl mutationName of
                       Some f \<Rightarrow> f (st # args)
                     | None \<Rightarrow> throwJS TypeError)
                  else returnJS Undefined
              | Some guard \<Rightarrow>
                  bindJS (guard [JStr mutationName]) (\<lambda>r.
                    if truthy r then
                      (case map_of tbl mutationName of
                         Some f \<Rightarrow> f (st # args)
                       | None \<Rightarrow> throwJS TypeError)
                    else returnJS Undefined))) \<rparr>"

definition getStateActions :: "'h model \<Rightarrow> string \<Rightarrow> 'h action slot option" where
  "getStateActions m st = map_of (actions m) st"

text \<open>
  \<open>getStateMutations\<close>, read as the table \<open>makeActionContext\<close> gets. The
  table is read by its own properties. A function there has no own property
  that is a mutation (its \<open>name\<close> and \<open>length\<close> are left out); the constructor
  leaves no function in the table.
\<close>

definition getStateMutations :: "'h model \<Rightarrow> string option \<Rightarrow> 'h jsfun object option" where
  "getStateMutations m st =
     (case map_of (mutations m) (keyOf st) of
        Some (Tbl t) \<Rightarrow> Some t
      | Some (Fn f) \<Rightarrow> Some []
      | _ \<Rightarrow> None)"

definition pickStates :: "jsval object \<Rightarrow> string option list \<Rightarrow> jsval object" where
  "pickStates allState ss =
     fold (\<lambda>s result. assign (keyOf s) (get_prop allState (keyOf s)) result) ss []"

definition getState :: "'h model \<Rightarrow> statesArg \<Rightarrow> 'h world \<Rightarrow> (error + jsval object) \<times> 'h world" where
  "getState m states =
     bindJS (logEvent (EvGetState states)) (\<lambda>u.
     bindJS (liftHeap (state m)) (\<lambda>allState.
       case states of
         SUndefined \<Rightarrow> returnJS allState
       | SString s \<Rightarrow>
           if s = [] then returnJS allState
           else returnJS (pickStates allState [Some s])
       | SArray ss \<Rightarrow> returnJS (pickStates allState ss)))"

definition statesArgOf :: "string option \<Rightarrow> statesArg" where
  "statesArgOf k = (case k of Some s \<Rightarrow> SString s | None \<Rightarrow> SUndefined)"

definition beforeDispatch :: "'h handler \<Rightarrow> 'h model \<Rightarrow> 'h model" where
  "beforeDispatch handler m =
     m\<lparr>beforeDispatchHanlers := beforeDispatchHanlers m @ [handler]\<rparr>"

text \<open>
  \<open>fireBeforeDispatch\<close>: the callback given to \<open>forEach\<close> declares no
  parameter and evaluates \<open>handler\<close>, a name bound nowhere in its scope, so
  its first call throws a ReferenceError.
\<close>

fun forEachJS :: "('a \<Rightarrow> 's \<Rightarrow> (error + unit) \<times> 's) \<Rightarrow> 'a list \<Rightarrow> 's \<Rightarrow> (error + unit) \<times> 's" where
  "forEachJS f [] = returnJS ()"
| "forEachJS f (x # xs) = bindJS (f x) (\<lambda>u. forEachJS f xs)"

definition fireBeforeDispatch ::
  "'h handler list \<Rightarrow> string option \<Rightarrow> string \<Rightarrow> 'h actionContext \<Rightarrow> jsval list \<Rightarrow>
   'h world \<Rightarrow> (error + unit) \<times> 'h world" where
  "fireBeforeDispatch handlers st action ctx args =
     forEachJS (\<lambda>unused. throwJS ReferenceError) handlers"

text \<open>
  \<open>applyAction\<close>: the arguments array is the context followed by the
  business arguments. The tables of actions and the reverse index are read
  by their own properties. A name that is declared nowhere and is the name
  of a member of \<open>Object.prototype\<close> is read by the code as that member; the
  call of a member is not followed here, it is given as the TypeError of a
  name that is not declared.
\<close>

definition applyAction ::
  "'h model \<Rightarrow> string option \<Rightarrow> string \<Rightarrow> 'h actionContext \<Rightarrow> jsval list \<Rightarrow>
   'h world \<Rightarrow> (error + jsval) \<times> 'h world" where
  "applyAction m st action ctx args =
     bindJS (fireBeforeDispatch (beforeDispatchHanlers m) st action ctx args) (\<lambda>u.
       case getStateActions m (keyOf st) of
         Some (Tbl t) \<Rightarrow>
           (case map_of t action of
              Some f \<Rightarrow>
                bindJS (logEvent (EvAction (keyOf st) action (ctx_state ctx) args)) (\<lambda>u.
                bindJS (liftHeap (f ctx args)) (\<lambda>result.
                  returnJS (if isThenable result then result else Undefined)))
            | None \<Rightarrow> throwJS TypeError)
       | _ \<Rightarrow> throwJS TypeError)"

text \<open>
  \<open>dispatch\<close>: \<open>result.then(() => state)\<close> on a result that is no promise is
  the call of a \<open>then\<close> that is no function, a TypeError (a \<open>then\<close> that is
  an inherited member is a function; its call is not followed here and is
  given as a TypeError too).
\<close>

definition dispatch ::
  "'h model \<Rightarrow> string \<Rightarrow> jsval list \<Rightarrow> 'h world \<Rightarrow> (error + jsval) \<times> 'h world" where
  "dispatch m action bizArgs =
     bindJS (getState m (statesArgOf (map_of (actionStateMap m) action))) (\<lambda>st.
     bindJS (applyAction m (map_of (actionStateMap m) action) action
               (makeActionContext
                  (getStateMutations m (map_of (actionStateMap m) action))
                  (get_prop st (keyOf (map_of (actionStateMap m) action)))
                  BoundDispatch)
               bizArgs) (\<lambda>result.
       case result of
         JPromise p \<Rightarrow> returnJS (JPromise (promise_then p (JObj st)))
       | _ \<Rightarrow> if isThenable result then throwJS TypeError else returnJS Undefined))"


record caller =
  c_stateKey :: "string option"
  c_action :: string
  c_args :: "jsval list"





definition runCaller ::
  "'h model \<Rightarrow> jsval object \<Rightarrow> caller \<Rightarrow> 'h world \<Rightarrow> (error + jsval) \<times> 'h world" where
  "runCaller m st c =
     applyAction m (c_stateKey c) (c_action c)
       (makeActionContext
          (getStateMutations m (c_stateKey c))
          (get_prop st (keyOf (c_stateKey c)))
          BoundDispatch)
       (c_args c)"


section \<open>The bundled build (dist/vueModello.js lines 345-397)\<close>

text \<open>
  The bundle is an older build of the same class. Its \<open>applyAction\<close> returns
  what the action returns, its \<open>dispatch\<close> calls \<open>then\<close> on that result
  whatever it is, and the contexts carry \<open>this.service\<close>, here \<open>sv\<close>.
\<close>

definition applyAction_dist ::
  "'h model \<Rightarrow> string option \<Rightarrow> string \<Rightarrow> 'h actionContext \<Rightarrow> jsval list \<Rightarrow>
   'h world \<Rightarrow> (error + jsval) \<times> 'h world" where
  "applyAction_dist m st action ctx args =
     bindJS (fireBeforeDispatch (beforeDispatchHanlers m) st action ctx args) (\<lambda>u.
       case getStateActions m (keyOf st) of
         Some (Tbl t) \<Rightarrow>
           (case map_of t action of
              Some f \<Rightarrow>
                bindJS (logEvent (EvAction (keyOf st) action (ctx_state ctx) args)) (\<lambda>u.
                  liftHeap (f ctx args))
            | None \<Rightarrow> throwJS TypeError)
       | _ \<Rightarrow> throwJS TypeError)"




section \<open>Notions used in the statements\<close>

text \<open>Namespace \<open>st\<close> of the table declares the action \<open>name\<close>.\<close>

definition declares :: "'f slot object \<Rightarrow> string \<Rightarrow> string \<Rightarrow> bool" where
  "declares acts name st =
     (case map_of acts st of Some (Tbl t) \<Rightarrow> hasOwnProperty t name | _ \<Rightarrow> False)"






section \<open>Example schemas\<close>

text \<open>
  The user's store of the examples is a list of counters; \<open>JRef a\<close> is the
  object whose count is cell \<open>a\<close>. The state factory allocates a new
  sub-state object at every call.
\<close>

definition exFactory :: "int list factory" where
  "exFactory h = (Inr (JRef (length h)), h @ [0])"

definition exInc :: "int list jsfun" where
  "exInc args h =
     (case args of
        JRef a # rest \<Rightarrow>
          if a < length h then (Inr Undefined, h[a := h ! a + 1]) else (Inl TypeError, h)
      | _ \<Rightarrow> (Inl TypeError, h))"

definition exIncAction :: "int list action" where
  "exIncAction ctx args = ctx_dispatch ctx ''inc'' []"

definition exLater :: "int list action" where
  "exLater ctx args h = (Inr (JPromise (Settles 5 (Fulfilled (JStr ''done'')))), h)"

definition exFail :: "int list action" where
  "exFail ctx args h = (Inr (JPromise (Settles 3 (Rejected (JStr ''boom'')))), h)"

definition exBoom :: "int list action" where
  "exBoom ctx args h = (Inl (Thrown (JStr ''boom'')), h)"

definition exHandler :: "int list handler" where
  "exHandler st action ctx args h = (Inr Undefined, h)"

definition exCounterDesc :: "int list modelDesc" where
  "exCounterDesc =
     \<lparr> d_modelName = ''counter'',
       d_properties = [],
       d_rules = None,
       d_binding = None,
       d_mixins = None,
       d_state = Some exFactory,
       d_actions = Some [(''incA'', Fn exIncAction), (''incB'', Fn exIncAction),
                         (''later'', Fn exLater), (''fail'', Fn exFail),
                         (''boom'', Fn exBoom)],
       d_mutations = Some [(''inc'', Fn exInc)] \<rparr>"

definition exCounter :: "int list model" where
  "exCounter =
     \<lparr> modelName = ''counter'',
       properties = [],
       rules = None,
       binding = None,
       defaultState = [],
       actions = [(''counter'', Tbl [(''incA'', exIncAction), (''incB'', exIncAction),
                                    (''later'', exLater), (''fail'', exFail),
                                    (''boom'', exBoom)])],
       mutations = [(''counter'', Tbl [(''inc'', exInc)])],
       actionStateMap = [(''incA'', ''counter''), (''incB'', ''counter''),
                         (''later'', ''counter''), (''fail'', ''counter''),
                         (''boom'', ''counter'')],
       state = composeState (wrapState ''counter'' exFactory) [],
       beforeDispatchHanlers = [] \<rparr>"




definition exUser :: "int list model" where
  "exUser =
     \<lparr> modelName = ''user'',
       properties =
         [(''name'', \<lparr> ptype = TString, label = Some ''Name'',
                       defaultValue = Some (JStr ''anon'') \<rparr>),
          (''nick'', \<lparr> ptype = TString, label = None, defaultValue = None \<rparr>)],
       rules = Some [(''name'', JObj [(''a'', JNum 1), (''b'', JNum 2)])],
       binding = None,
       defaultState = [(''name'', JStr ''anon''), (''nick'', JStr [])],
       actions = [],
       mutations = [],
       actionStateMap = [],
       state = composeState (returnJS []) [],
       beforeDispatchHanlers = [] \<rparr>"


definition exForm :: "int list model" where
  "exForm =
     \<lparr> modelName = ''form'',
       properties =
         [(''count'', \<lparr> ptype = TNumber, label = None, defaultValue = None \<rparr>),
          (''items'', \<lparr> ptype = TArray, label = None, defaultValue = None \<rparr>),
          (''flag'', \<lparr> ptype = TBoolean, label = None, defaultValue = None \<rparr>),
          (''who'', \<lparr> ptype = TNumber, label = None, defaultValue = Some Undefined \<rparr>),
          (''alias'', \<lparr> ptype = TString, label = None, defaultValue = None \<rparr>)],
       rules = Some [(''who'', JObj [(''b'', JNum 3)])],
       binding = Some \<lparr> bindModelName = ''user'',
                         propMap = [(''who'', ''name''), (''alias'', ''nick'')] \<rparr>,
       defaultState = [(''count'', JNum 0), (''items'', JArr []), (''flag'', JBool True),
                       (''who'', Undefined)],
       actions = [],
       mutations = [],
       actionStateMap = [],
       state = composeState (returnJS []) [],
       beforeDispatchHanlers = [] \<rparr>"

text \<open>
  A schema with an action of its own, two namespaces and a mixin keyed as
  one of them.
\<close>

definition exDocDesc :: "int list modelDesc" where
  "exDocDesc =
     \<lparr> d_modelName = ''doc'',
       d_properties = [],
       d_rules = None,
       d_binding = None,
       d_mixins = Some [(''audit'', \<lparr> mx_state = Some exFactory,
                                      mx_actions = Some [(''save'', exLater)],
                                      mx_mutations = Some [(''inc'', exInc)] \<rparr>)],
       d_state = None,
       d_actions = Some [(''doc'', Tbl []), (''audit'', Tbl [(''old'', exFail)]),
                         (''save'', Fn exIncAction)],
       d_mutations = Some [(''audit'', Tbl [])] \<rparr>"

definition exDoc :: "int list model" where
  "exDoc =
     \<lparr> modelName = ''doc'',
       properties = [],
       rules = None,
       binding = None,
       defaultState = [],
       actions = [(''doc'', Tbl [(''save'', exIncAction)]),
                  (''audit'', Tbl [(''save'', exLater)])],
       mutations = [(''audit'', Tbl [(''inc'', exInc)]), (''doc'', Tbl [])],
       actionStateMap = [(''save'', ''audit'')],
       state = composeState (returnJS []) [(''audit'', Some exFactory)],
       beforeDispatchHanlers = [] \<rparr>"

text \<open>
  The same schema without the namespace \<open>doc\<close> written out: the model's own
  namespace is then created after \<open>audit\<close>.
\<close>

definition exDoc2Desc :: "int list modelDesc" where
  "exDoc2Desc =
     \<lparr> d_modelName = ''doc'',
       d_properties = [],
       d_rules = None,
       d_binding = None,
       d_mixins = Some [(''audit'', \<lparr> mx_state = Some exFactory,
                                      mx_actions = Some [(''save'', exLater)],
                                      mx_mutations = Some [(''inc'', exInc)] \<rparr>)],
       d_state = None,
       d_actions = Some [(''audit'', Tbl [(''old'', exFail)]), (''save'', Fn exIncAction)],
       d_mutations = Some [(''audit'', Tbl [])] \<rparr>"

definition exDoc2 :: "int list model" where
  "exDoc2 =
     \<lparr> modelName = ''doc'',
       properties = [],
       rules = None,
       binding = None,
       defaultState = [],
       actions = [(''audit'', Tbl [(''save'', exLater)]),
                  (''doc'', Tbl [(''save'', exIncAction)])],
       mutations = [(''audit'', Tbl [(''inc'', exInc)]), (''doc'', Tbl [])],
       actionStateMap = [(''save'', ''doc'')],
       state = composeState (returnJS []) [(''audit'', Some exFactory)],
       beforeDispatchHanlers = [] \<rparr>"



text \<open>A model whose only action bears the model's own name.\<close>

definition exLoginDesc :: "int list modelDesc" where
  "exLoginDesc =
     \<lparr> d_modelName = ''login'',
       d_properties = [],
       d_rules = None,
       d_binding = None,
       d_mixins = None,
       d_state = None,
       d_actions = Some [(''login'', Fn exLater)],
       d_mutations = None \<rparr>"

definition exLogin :: "int list model" where
  "exLogin =
     \<lparr> modelName = ''login'',
       properties = [],
       rules = None,
       binding = None,
       defaultState = [],
       actions = [],
       mutations = [],
       actionStateMap = [],
       state = composeState (returnJS []) [],
       beforeDispatchHanlers = [] \<rparr>"











section \<open>Auxiliary lemmas\<close>

lemma map_of_insIndex:
  "map_of al k = None \<Longrightarrow> map_of (insIndex n k v al) = (map_of al)(k \<mapsto> v)"
proof (induction al)
  case Nil
  then show ?case by (simp add: fun_eq_iff)
next
  case (Cons p al)
  obtain a b where p: "p = (a, b)" by (cases p)
  from Cons.prems have ne: "a \<noteq> k" and rest: "map_of al k = None"
    by (auto simp: p split: if_splits)
  show ?case
    using Cons.IH [OF rest] ne
    by (auto simp: p fun_eq_iff split: option.splits)
qed

lemma map_of_assign:
  "map_of (assign k v al) = (map_of al)(k \<mapsto> v)"
proof (cases "indexOf k")
  case None
  then show ?thesis by (simp add: assign_def update_conv')
next
  case (Some n)
  show ?thesis
  proof (cases "map_of al k")
    case None
    then show ?thesis using Some by (simp add: assign_def map_of_insIndex)
  next
    case (Some a)
    then show ?thesis using \<open>indexOf k = Some n\<close> by (simp add: assign_def update_conv')
  qed
qed








lemma get_prop_plain:
  "\<not> inherited k \<Longrightarrow>
   get_prop obj k = (case map_of obj k of Some v \<Rightarrow> v | None \<Rightarrow> Undefined)"
  by (simp add: get_prop_def)

lemma readProp_plain:
  "\<not> inherited k \<Longrightarrow>
   readProp obj k = (case map_of obj k of Some v \<Rightarrow> Own v | None \<Rightarrow> Absent)"
  by (simp add: readProp_def)
















lemma Object_assign_Nil [simp]: "Object_assign t [] = t"
  by (simp add: Object_assign_def Object_keys_def)


lemma fold_index_names:
  "map_of (fold (\<lambda>name a. assign name st a) names asm) name =
     (if name \<in> set names then Some st else map_of asm name)"
  by (induction names arbitrary: asm) (auto simp: map_of_assign)

lemma slotKeys_declares:
  "map_of acts st = Some sl \<Longrightarrow> slotKeys sl = Inr names \<Longrightarrow>
   name \<in> set names \<longleftrightarrow> declares acts name st"
  by (cases sl) (force simp: declares_def hasOwnProperty_def Object_keys_def map_of_eq_None_iff)+

lemma buildActionStateMap_last:
  "buildActionStateMap acts ks asm0 = Inr asm \<Longrightarrow>
   map_of asm name =
     (if filter (declares acts name) ks = [] then map_of asm0 name
      else Some (last (filter (declares acts name) ks)))"
proof (induction ks arbitrary: asm0)
  case Nil
  then show ?case by simp
next
  case (Cons st ks)
  from Cons.prems obtain sl names where
    sl: "map_of acts st = Some sl" and names: "slotKeys sl = Inr names" and
    rest: "buildActionStateMap acts ks (fold (\<lambda>name a. assign name st a) names asm0) = Inr asm"
    by (auto split: option.splits sum.splits)
  note d = slotKeys_declares [OF sl names, of name]
  show ?case
    using Cons.IH [OF rest] d
    by (auto simp: fold_index_names)
qed

lemma Model_index:
  assumes "Model desc = Inr m"
  shows "buildActionStateMap (actions m) (Object_keys (actions m)) [] = Inr (actionStateMap m)"
  using assms
  by (auto simp: Model_def Let_def split: prod.splits sum.splits if_splits)

lemma Model_index_last:
  assumes "Model desc = Inr m"
  shows "map_of (actionStateMap m) name =
     (if filter (declares (actions m) name) (Object_keys (actions m)) = [] then None
      else Some (last (filter (declares (actions m) name) (Object_keys (actions m)))))"
  using buildActionStateMap_last [OF Model_index [OF assms], of name]
  by simp

lemma Model_unknown_undeclared:
  assumes "Model desc = Inr m" and "map_of (actionStateMap m) action = None"
  shows "\<not> declares (actions m) action st"
proof
  assume d: "declares (actions m) action st"
  then have "st \<in> set (Object_keys (actions m))"
    by (auto simp: declares_def Object_keys_def split: option.splits dest: map_of_SomeD intro: rev_image_eqI)
  with d have "filter (declares (actions m) action) (Object_keys (actions m)) \<noteq> []"
    by (auto simp: filter_empty_conv)
  with Model_index_last [OF assms(1), of action] assms(2) show False
    by simp
qed

lemma bindJS_returnJS [simp]: "bindJS (returnJS a) f = f a"
  by (rule ext) (simp add: bindJS_def returnJS_def)

lemma bindJS_throwJS [simp]: "bindJS (throwJS e) f = throwJS e"
  by (rule ext) (simp add: bindJS_def throwJS_def)

lemma throwJS_apply [simp]: "throwJS e s = (Inl e, s)"
  by (simp add: throwJS_def)

lemma returnJS_apply [simp]: "returnJS a s = (Inr a, s)"
  by (simp add: returnJS_def)

lemma bindJS_liftHeap_Inr:
  "f (heap w) = (Inr v, h') \<Longrightarrow> bindJS (liftHeap f) g w = g v (w\<lparr>heap := h'\<rparr>)"
  by (simp add: bindJS_def liftHeap_def)


lemma bindJS_Inr: "m s = (Inr a, s') \<Longrightarrow> bindJS m f s = f a s'"
  by (simp add: bindJS_def)

lemma bindJS_Inl: "m s = (Inl e, s') \<Longrightarrow> bindJS m f s = (Inl e, s')"
  by (simp add: bindJS_def)

lemma bindJS_logEvent [simp]:
  "bindJS (logEvent ev) f w = f () (w\<lparr>trace := trace w @ [ev]\<rparr>)"
  by (simp add: bindJS_def logEvent_def)

lemma bindJS_eq_Inr:
  "bindJS m f s = (Inr b, s'') \<longleftrightarrow> (\<exists>a s'. m s = (Inr a, s') \<and> f a s' = (Inr b, s''))"
  by (auto simp: bindJS_def split: prod.splits sum.splits)

lemma fireBeforeDispatch_Nil [simp]:
  "fireBeforeDispatch [] st action ctx args = returnJS ()"
  by (simp add: fireBeforeDispatch_def)

lemma fireBeforeDispatch_Cons [simp]:
  "fireBeforeDispatch (h # hs) st action ctx args = throwJS ReferenceError"
  by (simp add: fireBeforeDispatch_def)

lemma applyAction_handlers:
  "beforeDispatchHanlers m \<noteq> [] \<Longrightarrow>
   applyAction m st action ctx args w = (Inl ReferenceError, w)"
  by (cases "beforeDispatchHanlers m") (simp_all add: applyAction_def)

lemma applyAction_undeclared:
  "\<not> declares (actions m) action (keyOf st) \<Longrightarrow>
   \<exists>e. applyAction m st action ctx args w = (Inl e, w)"
  by (cases "beforeDispatchHanlers m")
     (auto simp: applyAction_def getStateActions_def declares_def hasOwnProperty_def
           split: option.splits slot.splits)

lemma declares_handlers [simp]:
  "actions (m\<lparr>beforeDispatchHanlers := hs\<rparr>) = actions m"
  by simp


lemma applyAction_plain:
  assumes "beforeDispatchHanlers m = []"
    and "getStateActions m (keyOf st) = Some (Tbl t)"
    and "map_of t action = Some f"
    and "f ctx args (heap w) = (Inr v, h')"
  shows "applyAction m st action ctx args w =
     (Inr (if isThenable v then v else Undefined),
      \<lparr>heap = h', trace = trace w @ [EvAction (keyOf st) action (ctx_state ctx) args]\<rparr>)"
  using assms
  by (simp add: applyAction_def bindJS_liftHeap_Inr)

lemma keyOf_Some [simp]: "keyOf (Some s) = s"
  by (simp add: keyOf_def)






lemmas model_eval =
  Model_def regDefaultDesc_def regDefaultDescThrows_def propertyLoopThrows_def isFn_def
  readOnlyOfFunction_def moveFn_def Object_keys_def mergeMixins_def mergeMixin_def
  bindingMapOf_def Let_def collectDefault_def hasOwnProperty_def assign_def indexOf_def
  digitVal_def inherited_def protoNames_def

lemmas assign_eval = assign_def indexOf_def digitVal_def

lemma Model_exCounter: "Model exCounterDesc = Inr exCounter"
  by (simp add: exCounterDesc_def exCounter_def model_eval)

lemma exCounter_state:
  "state exCounter h = (Inr [(''counter'', JRef (length h))], h @ [0])"
  by (simp add: exCounter_def composeState_def wrapState_def bindJS_def exFactory_def
      returnJS_def Object_keys_def)




lemma Model_exDoc: "Model exDocDesc = Inr exDoc"
  by (simp add: exDocDesc_def exDoc_def model_eval)

lemma Model_exLogin: "Model exLoginDesc = Inr exLogin"
  by (simp add: exLoginDesc_def exLogin_def model_eval)



















lemmas remote_eval =
  remoteOf_def remoteThrows_def mappedKey_def readProp_def bindingMapOf_def
  getBindingModel_def ModelMan_get_def inherited_def protoNames_def

lemma applyAction_dist_handlers:
  "beforeDispatchHanlers m \<noteq> [] \<Longrightarrow>
   applyAction_dist m st action ctx args w = (Inl ReferenceError, w)"
  by (cases "beforeDispatchHanlers m") (simp_all add: applyAction_dist_def)













lemma exCounter_actions:
  "getStateActions exCounter ''counter'' =
     Some (Tbl [(''incA'', exIncAction), (''incB'', exIncAction), (''later'', exLater),
                (''fail'', exFail), (''boom'', exBoom)])"
  by (simp add: getStateActions_def exCounter_def)

lemma exCounter_mutations:
  "getStateMutations exCounter (Some ''counter'') = Some [(''inc'', exInc)]"
  by (simp add: getStateMutations_def exCounter_def)

lemma exCounter_handlers: "beforeDispatchHanlers exCounter = []"
  by (simp add: exCounter_def)


lemma exIncAction_run:
  "a < length h \<Longrightarrow>
   exIncAction (makeActionContext (Some [(''inc'', exInc)]) (JRef a) sv) args h =
     (Inr Undefined, h[a := h ! a + 1])"
  by (simp add: exIncAction_def makeActionContext_def hasOwnProperty_def exInc_def)

lemma exCounter_runCaller_inc:
  assumes "map_of [(''incA'', exIncAction), (''incB'', exIncAction), (''later'', exLater),
                   (''fail'', exFail), (''boom'', exBoom)] name = Some exIncAction"
    and "a < length h"
  shows "runCaller exCounter [(''counter'', JRef a)]
           \<lparr> c_stateKey = Some ''counter'', c_action = name, c_args = [] \<rparr>
           \<lparr>heap = h, trace = tr\<rparr> =
         (Inr Undefined,
          \<lparr>heap = h[a := h ! a + 1], trace = tr @ [EvAction ''counter'' name (JRef a) []]\<rparr>)"
  using applyAction_plain [OF exCounter_handlers, of "Some ''counter''" _ name exIncAction
      "makeActionContext (Some [(''inc'', exInc)]) (JRef a) BoundDispatch" "[]"
      "\<lparr>heap = h, trace = tr\<rparr>" Undefined "h[a := h ! a + 1]"]
    assms exCounter_actions exIncAction_run [OF assms(2)]
  by (simp add: runCaller_def exCounter_mutations get_prop_def makeActionContext_def)

lemma moveFn_attached:
  assumes "map_of d mName = Some (Tbl t)"
  shows "moveFn mName True k d =
     (case map_of d k of
        Some (Fn f) \<Rightarrow> AList.delete k (assign mName (Tbl (assign k f t)) d)
      | _ \<Rightarrow> d)"
  using assms by (simp add: moveFn_def split: option.splits slot.splits)

lemma fold_moveFn_attached:
  assumes "map_of d mName = Some (Tbl t)"
  shows "\<exists>t'. map_of (fold (moveFn mName True) ks d) mName = Some (Tbl t') \<and>
     (\<forall>name. map_of t' name =
        (if name \<in> set ks
         then (case map_of d name of Some (Fn f) \<Rightarrow> Some f | _ \<Rightarrow> map_of t name)
         else map_of t name)) \<and>
     (\<forall>name. name \<noteq> mName \<longrightarrow>
        map_of (fold (moveFn mName True) ks d) name =
          (if name \<in> set ks
           then (case map_of d name of Some (Fn f) \<Rightarrow> None | x \<Rightarrow> x)
           else map_of d name))"
  using assms
proof (induction ks arbitrary: d t)
  case Nil
  then show ?case by simp
next
  case (Cons k ks)
  show ?case
  proof (cases "\<exists>f. map_of d k = Some (Fn f)")
    case True
    then obtain f where f: "map_of d k = Some (Fn f)" by blast
    with Cons.prems have km: "k \<noteq> mName" by auto
    let ?t1 = "assign k f t"
    let ?d1 = "AList.delete k (assign mName (Tbl ?t1) d)"
    have step: "moveFn mName True k d = ?d1"
      using moveFn_attached [OF Cons.prems, of k] f by simp
    have m1: "map_of ?d1 mName = Some (Tbl ?t1)"
      using km by (simp add: delete_conv' map_of_assign)
    from Cons.IH [OF m1] obtain t' where
      a: "map_of (fold (moveFn mName True) ks ?d1) mName = Some (Tbl t')" and
      b: "\<And>name. map_of t' name =
        (if name \<in> set ks
         then (case map_of ?d1 name of Some (Fn f) \<Rightarrow> Some f | _ \<Rightarrow> map_of ?t1 name)
         else map_of ?t1 name)" and
      c: "\<And>name. name \<noteq> mName \<Longrightarrow>
        map_of (fold (moveFn mName True) ks ?d1) name =
          (if name \<in> set ks
           then (case map_of ?d1 name of Some (Fn f) \<Rightarrow> None | x \<Rightarrow> x)
           else map_of ?d1 name)"
      by blast
    have d1: "map_of ?d1 name = (if name = k then None else if name = mName then Some (Tbl ?t1)
                                 else map_of d name)" for name
      by (simp add: delete_conv' map_of_assign)
    show ?thesis
    proof (intro exI [of _ t'] conjI allI impI)
      show "map_of (fold (moveFn mName True) (k # ks) d) mName = Some (Tbl t')"
        using a step by simp
    next
      fix name
      show "map_of t' name =
        (if name \<in> set (k # ks)
         then (case map_of d name of Some (Fn f) \<Rightarrow> Some f | _ \<Rightarrow> map_of t name)
         else map_of t name)"
        using b [of name] d1 [of name] f km Cons.prems
        by (auto simp: map_of_assign split: option.splits slot.splits)
    next
      fix name
      assume "name \<noteq> mName"
      then show "map_of (fold (moveFn mName True) (k # ks) d) name =
          (if name \<in> set (k # ks)
           then (case map_of d name of Some (Fn f) \<Rightarrow> None | x \<Rightarrow> x)
           else map_of d name)"
        using c [of name] d1 [of name] f step
        by (auto split: option.splits slot.splits)
    qed
  next
    case False
    then have step: "moveFn mName True k d = d"
      using moveFn_attached [OF Cons.prems, of k]
      by (auto split: option.splits slot.splits)
    from Cons.IH [OF Cons.prems] obtain t' where
      a: "map_of (fold (moveFn mName True) ks d) mName = Some (Tbl t')" and
      b: "\<And>name. map_of t' name =
        (if name \<in> set ks
         then (case map_of d name of Some (Fn f) \<Rightarrow> Some f | _ \<Rightarrow> map_of t name)
         else map_of t name)" and
      c: "\<And>name. name \<noteq> mName \<Longrightarrow>
        map_of (fold (moveFn mName True) ks d) name =
          (if name \<in> set ks
           then (case map_of d name of Some (Fn f) \<Rightarrow> None | x \<Rightarrow> x)
           else map_of d name)"
      by blast
    show ?thesis
    proof (intro exI [of _ t'] conjI allI impI)
      show "map_of (fold (moveFn mName True) (k # ks) d) mName = Some (Tbl t')"
        using a step by simp
    next
      fix name
      show "map_of t' name =
        (if name \<in> set (k # ks)
         then (case map_of d name of Some (Fn f) \<Rightarrow> Some f | _ \<Rightarrow> map_of t name)
         else map_of t name)"
        using b [of name] False
        by (auto split: option.splits slot.splits)
    next
      fix name
      assume "name \<noteq> mName"
      then show "map_of (fold (moveFn mName True) (k # ks) d) name =
          (if name \<in> set (k # ks)
           then (case map_of d name of Some (Fn f) \<Rightarrow> None | x \<Rightarrow> x)
           else map_of d name)"
        using c [of name] False step
        by (auto split: option.splits slot.splits)
    qed
  qed
qed

lemma in_Object_keys: "map_of obj k = Some v \<Longrightarrow> k \<in> set (Object_keys obj)"
  by (force simp: Object_keys_def dest: map_of_SomeD)

lemma regDefaultDesc_moves:
  assumes "\<forall>f. map_of desc mName \<noteq> Some (Fn f)"
    and "map_of desc mName \<noteq> None \<or> \<not> inherited mName"
  shows "\<exists>defaults.
     map_of (regDefaultDesc mName desc) mName = Some (Tbl defaults) \<and>
     (\<forall>name f. map_of desc name = Some (Fn f) \<longrightarrow>
        map_of defaults name = Some f \<and> map_of (regDefaultDesc mName desc) name = None) \<and>
     (\<forall>name t. name \<noteq> mName \<longrightarrow> map_of desc name = Some (Tbl t) \<longrightarrow>
        map_of (regDefaultDesc mName desc) name = Some (Tbl t)) \<and>
     (\<forall>name t. map_of desc mName = Some (Tbl t) \<longrightarrow>
        (\<forall>f. map_of desc name \<noteq> Some (Fn f)) \<longrightarrow> map_of defaults name = map_of t name)"
proof -
  define d where "d = (case map_of desc mName of Some (Tbl t) \<Rightarrow> desc
                        | _ \<Rightarrow> assign mName (Tbl []) desc)"
  define t0 where "t0 = (case map_of desc mName of Some (Tbl t) \<Rightarrow> t | _ \<Rightarrow> [])"
  have r: "regDefaultDesc mName desc = fold (moveFn mName True) (Object_keys d) d"
    using assms by (auto simp: regDefaultDesc_def d_def split: option.splits slot.splits)
  have m: "map_of d mName = Some (Tbl t0)"
    by (auto simp: d_def t0_def map_of_assign split: option.splits slot.splits)
  have o: "name \<noteq> mName \<Longrightarrow> map_of d name = map_of desc name" for name
    by (auto simp: d_def map_of_assign split: option.splits slot.splits)
  from fold_moveFn_attached [OF m, of "Object_keys d"] obtain t' where
    a: "map_of (fold (moveFn mName True) (Object_keys d) d) mName = Some (Tbl t')" and
    b: "\<And>name. map_of t' name =
        (if name \<in> set (Object_keys d)
         then (case map_of d name of Some (Fn f) \<Rightarrow> Some f | _ \<Rightarrow> map_of t0 name)
         else map_of t0 name)" and
    c: "\<And>name. name \<noteq> mName \<Longrightarrow>
        map_of (fold (moveFn mName True) (Object_keys d) d) name =
          (if name \<in> set (Object_keys d)
           then (case map_of d name of Some (Fn f) \<Rightarrow> None | x \<Rightarrow> x)
           else map_of d name)"
    by blast
  show ?thesis
  proof (intro exI [of _ t'] conjI allI impI)
    show "map_of (regDefaultDesc mName desc) mName = Some (Tbl t')"
      using a r by simp
  next
    fix name f
    assume f: "map_of desc name = Some (Fn f)"
    with assms(1) have nm: "name \<noteq> mName" by auto
    have k: "name \<in> set (Object_keys d)"
      using o [OF nm] f by (auto intro: in_Object_keys)
    show "map_of t' name = Some f"
      using b [of name] k o [OF nm] f by simp
    show "map_of (regDefaultDesc mName desc) name = None"
      using c [OF nm] k o [OF nm] f r by simp
  next
    fix name t
    assume nm: "name \<noteq> mName" and t: "map_of desc name = Some (Tbl t)"
    show "map_of (regDefaultDesc mName desc) name = Some (Tbl t)"
      using c [OF nm] o [OF nm] t r by simp
  next
    fix name t
    assume t: "map_of desc mName = Some (Tbl t)"
      and nf: "\<forall>f. map_of desc name \<noteq> Some (Fn f)"
    have "d = desc" "t0 = t" using t by (simp_all add: d_def t0_def)
    then show "map_of t' name = map_of t name"
      using b [of name] nf
      by (auto split: option.splits slot.splits)
  qed
qed

lemma wrapState_nested:
  "state0 h = (Inr v, h') \<Longrightarrow> wrapState mName state0 h = (Inr [(mName, v)], h')"
  by (simp add: wrapState_def bindJS_def returnJS_def)



lemma Model_index_sound:
  assumes "Model desc = Inr m" and "map_of (actionStateMap m) action = Some ns"
  shows "\<exists>t f. getStateActions m ns = Some (Tbl t) \<and> map_of t action = Some f"
proof -
  let ?xs = "filter (declares (actions m) action) (Object_keys (actions m))"
  from Model_index_last [OF assms(1), of action] assms(2)
  have ne: "?xs \<noteq> []" and l: "ns = last ?xs"
    by (auto split: if_splits)
  then have "ns \<in> set ?xs"
    using last_in_set by blast
  then have "declares (actions m) action ns" by simp
  then show ?thesis
    by (auto simp: declares_def getStateActions_def hasOwnProperty_def
             split: option.splits slot.splits)
qed

lemma Model_exDoc2: "Model exDoc2Desc = Inr exDoc2"
  by (simp add: exDoc2Desc_def exDoc2_def model_eval)

lemma Model_index_own_after_mixin:
  "Model exDoc2Desc = Inr exDoc2 \<and>
   Object_keys (actions exDoc2) = [''audit'', ''doc''] \<and>
   map_of (actions exDoc2) ''audit'' = Some (Tbl [(''save'', exLater)]) \<and>
   map_of (actionStateMap exDoc2) ''save'' = Some ''doc''"
  using Model_exDoc2 by (simp add: exDoc2_def Object_keys_def)

section \<open>The claims\<close>







text \<open>
  Claim C3. On a constructed model, with any list of registered
  before-dispatch handlers, \<open>dispatch\<close> of an action name that is not in the
  reverse index ends in an exception: it never returns a value. On the
  example model the exception is the TypeError of the action lookup.
\<close>

theorem dispatch_unknown_action:
  assumes "Model desc = Inr m0" and "map_of (actionStateMap m0) action = None"
  shows "\<exists>e w'. dispatch (m0\<lparr>beforeDispatchHanlers := hs\<rparr>) action args w = (Inl e, w')"
proof -
  let ?m = "m0\<lparr>beforeDispatchHanlers := hs\<rparr>"
  have nd: "\<not> declares (actions ?m) action (keyOf None)"
    using Model_unknown_undeclared [OF assms] by simp
  obtain r w1 where g: "getState ?m SUndefined w = (r, w1)"
    by (cases "getState ?m SUndefined w")
  show ?thesis
  proof (cases r)
    case (Inl e)
    then show ?thesis
      using g assms(2) by (simp add: dispatch_def statesArgOf_def bindJS_Inl)
  next
    case (Inr st)
    obtain e where "applyAction ?m None action
        (makeActionContext (getStateMutations ?m None) (get_prop st (keyOf None)) BoundDispatch)
        args w1 = (Inl e, w1)"
      using applyAction_undeclared [OF nd] by blast
    then show ?thesis
      using g Inr assms(2)
      by (simp add: dispatch_def statesArgOf_def bindJS_Inr bindJS_Inl)
  qed
qed

theorem dispatch_unknown_action_witness:
  "Model exCounterDesc = Inr exCounter \<and>
   map_of (actionStateMap exCounter) ''nope'' = None \<and>
   (\<exists>e w'. dispatch (exCounter\<lparr>beforeDispatchHanlers := [exHandler]\<rparr>) ''nope'' [JNum 1]
              \<lparr>heap = [], trace = []\<rparr> = (Inl e, w')) \<and>
   dispatch exCounter ''nope'' [JNum 1] \<lparr>heap = [], trace = []\<rparr> =
     (Inl TypeError, \<lparr>heap = [0], trace = [EvGetState SUndefined]\<rparr>)"
proof -
  have u: "map_of (actionStateMap exCounter) ''nope'' = None"
    by (simp add: exCounter_def)
  have g: "getState exCounter SUndefined \<lparr>heap = [], trace = []\<rparr> =
      (Inr [(''counter'', JRef 0)], \<lparr>heap = [0], trace = [EvGetState SUndefined]\<rparr>)"
    using exCounter_state [of "[]"]
    by (simp add: getState_def
        bindJS_liftHeap_Inr [where h' = "[0]" and v = "[(''counter'', JRef 0)]"])
  have a: "applyAction exCounter None ''nope'' ctx [JNum 1] w = (Inl TypeError, w)" for ctx w
    by (simp add: applyAction_def exCounter_def getStateActions_def keyOf_def)
  have d: "dispatch exCounter ''nope'' [JNum 1] \<lparr>heap = [], trace = []\<rparr> =
     (Inl TypeError, \<lparr>heap = [0], trace = [EvGetState SUndefined]\<rparr>)"
    using g a
    by (simp add: dispatch_def u statesArgOf_def bindJS_Inr bindJS_Inl)
  show ?thesis
    using Model_exCounter u d
      dispatch_unknown_action [OF Model_exCounter u, of "[exHandler]" "[JNum 1]"
        "\<lparr>heap = [], trace = []\<rparr>"]
    by simp
qed

text \<open>
  Claim C4 says that every registered before-dispatch handler is called
  with the namespace, the action name and the arguments before the action.
  The code does not do that: once a handler is registered, \<open>applyAction\<close>
  throws a ReferenceError before it looks the action up, in both builds, so
  neither the handler nor the action is ever called. The last conjunct is
  \<open>dispatch('incA')\<close> on the example model after \<open>beforeDispatch(exHandler)\<close>.
\<close>

theorem handlers_never_run:
  "applyAction (beforeDispatch handler m) st action ctx args w = (Inl ReferenceError, w) \<and>
   applyAction_dist (beforeDispatch handler m) st action ctx args w = (Inl ReferenceError, w) \<and>
   dispatch (beforeDispatch exHandler exCounter) ''incA'' [] \<lparr>heap = [], trace = []\<rparr> =
     (Inl ReferenceError, \<lparr>heap = [0], trace = [EvGetState (SString ''counter'')]\<rparr>)"
proof -
  have h: "beforeDispatchHanlers (beforeDispatch handler m) \<noteq> []"
    by (simp add: beforeDispatch_def)
  have s: "state (beforeDispatch exHandler exCounter) [] = (Inr [(''counter'', JRef 0)], [0])"
    using exCounter_state [of "[]"] by (simp add: beforeDispatch_def)
  have g: "getState (beforeDispatch exHandler exCounter) (SString ''counter'')
             \<lparr>heap = [], trace = []\<rparr> =
           (Inr [(''counter'', JRef 0)],
            \<lparr>heap = [0], trace = [EvGetState (SString ''counter'')]\<rparr>)"
    by (simp add: getState_def bindJS_liftHeap_Inr [where h' = "[0]" and v = "[(''counter'', JRef 0)]"]
        s pickStates_def get_prop_def assign_eval)
  have a: "map_of (actionStateMap (beforeDispatch exHandler exCounter)) ''incA'' = Some ''counter''"
    by (simp add: beforeDispatch_def exCounter_def)
  have d: "dispatch (beforeDispatch exHandler exCounter) ''incA'' [] \<lparr>heap = [], trace = []\<rparr> =
     (Inl ReferenceError, \<lparr>heap = [0], trace = [EvGetState (SString ''counter'')]\<rparr>)"
    using g applyAction_handlers [of "beforeDispatch exHandler exCounter"]
    unfolding dispatch_def a statesArgOf_def
    by (simp add: bindJS_Inr bindJS_Inl beforeDispatch_def)
  show ?thesis
    using applyAction_handlers [OF h] applyAction_dist_handlers [OF h] d by simp
qed

text \<open>
  Claim C5. For every declared property whose descriptor has the key
  \<open>defaultValue\<close>, whatever its value (\<open>undefined\<close>, \<open>null\<close>, \<open>false\<close> and \<open>0\<close>
  included), \<open>getPropDefaults\<close> returns exactly that value: for every
  registry, every binding and every type. In the example the property is
  bound to a registered model whose default is \<open>'anon'\<close>, its type is
  \<open>Number\<close> and its explicit default is \<open>undefined\<close>.
\<close>

theorem getPropDefaults_explicit:
  "map_of (properties m) prop = Some pd \<Longrightarrow> defaultValue pd = Some v \<Longrightarrow>
   getPropDefaults store m prop = Some (Inr v)"
  by (subst getPropDefaults.simps) (simp add: readProp_def explicitDefault_def)

theorem getPropDefaults_explicit_witness:
  "map_of (properties exForm) ''who'' =
     Some \<lparr> ptype = TNumber, label = None, defaultValue = Some Undefined \<rparr> \<and>
   remoteOf [(''user'', exUser)] exForm ''who'' = Some (exUser, ''name'') \<and>
   getPropDefaults [(''user'', exUser)] exUser ''name'' = Some (Inr (JStr ''anon'')) \<and>
   getPropDefaults [(''user'', exUser)] exForm ''who'' = Some (Inr Undefined)"
proof -
  have p: "map_of (properties exForm) ''who'' =
     Some \<lparr> ptype = TNumber, label = None, defaultValue = Some Undefined \<rparr>"
    by (simp add: exForm_def)
  have q: "map_of (properties exUser) ''name'' =
     Some \<lparr> ptype = TString, label = Some ''Name'', defaultValue = Some (JStr ''anon'') \<rparr>"
    by (simp add: exUser_def)
  have r: "remoteOf [(''user'', exUser)] exForm ''who'' = Some (exUser, ''name'')"
    by (simp add: remote_eval exForm_def)
  show ?thesis
    using p r getPropDefaults_explicit [OF p, of Undefined "[(''user'', exUser)]"]
      getPropDefaults_explicit [OF q, of "JStr ''anon''" "[(''user'', exUser)]"]
    by simp
qed













text \<open>
  Claim C10 says that every function entry of the schema's \<open>actions\<close> and
  \<open>mutations\<close> tables is moved into the namespace keyed \<open>modelName\<close>. That
  holds when the entry keyed \<open>modelName\<close> is not itself a function and
  \<open>modelName\<close> does not read as an inherited member
  (\<open>regDefaultDesc_moves\<close>, and \<open>wrapState_nested\<close> for the state). When a
  function entry bears the model's name, \<open>regDefaultDesc\<close> takes that function for
  the namespace object: every function entry is deleted from the table and
  none is moved. The model \<open>login\<close> with the one action \<open>login\<close> is built with
  no action at all, and \<open>dispatch('login')\<close> throws.
\<close>

theorem regDefaultDesc_name_clash:
  "regDefaultDesc ''login'' [(''login'', Fn exLater)] = [] \<and>
   Model exLoginDesc = Inr exLogin \<and>
   actions exLogin = [] \<and>
   actionStateMap exLogin = [] \<and>
   dispatch exLogin ''login'' [] \<lparr>heap = [], trace = []\<rparr> =
     (Inl TypeError, \<lparr>heap = [], trace = [EvGetState SUndefined]\<rparr>)"
proof -
  have 1: "regDefaultDesc ''login'' [(''login'', Fn exLater)] = []"
    by (simp add: regDefaultDesc_def moveFn_def Object_keys_def)
  have s: "state exLogin [] = (Inr [], [])"
    by (simp add: exLogin_def composeState_def Object_keys_def)
  have g: "getState exLogin SUndefined \<lparr>heap = [], trace = []\<rparr> =
      (Inr [], \<lparr>heap = [], trace = [EvGetState SUndefined]\<rparr>)"
    by (simp add: getState_def bindJS_liftHeap_Inr [where h' = "[]" and v = "[]"] s)
  have a: "applyAction exLogin None ''login'' ctx [] w = (Inl TypeError, w)" for ctx w
    by (simp add: applyAction_def exLogin_def getStateActions_def)
  have d: "dispatch exLogin ''login'' [] \<lparr>heap = [], trace = []\<rparr> =
     (Inl TypeError, \<lparr>heap = [], trace = [EvGetState SUndefined]\<rparr>)"
    using g a
    by (simp add: dispatch_def statesArgOf_def bindJS_Inr bindJS_Inl exLogin_def)
  show ?thesis
    using 1 Model_exLogin d by (simp add: exLogin_def)
qed

end
